theory Spec2Isabelle
  imports Main
begin

section \<open>JavaScript values read by the report\<close>


text \<open>\<^verbatim>\<open>s || d\<close> on an optional string.\<close>

definition or_else :: "string option \<Rightarrow> string \<Rightarrow> string" where
  "or_else s d = (case s of None \<Rightarrow> d | Some x \<Rightarrow> (if x = [] then d else x))"

text \<open>
  A populated user reference. \<open>u_id\<close> is the string that \<^verbatim>\<open>_id.toString()\<close>
  gives; an \<^verbatim>\<open>_id\<close> that is present is an object and therefore truthy.
\<close>

record user_ref =
  u_id :: "string option"
  u_username :: "string option"
  u_email :: "string option"

text \<open>\<^verbatim>\<open>x && x._id\<close>, also \<^verbatim>\<open>x?._id\<close>.\<close>

definition ref_id :: "user_ref option \<Rightarrow> string option" where
  "ref_id r = (case r of None \<Rightarrow> None | Some u \<Rightarrow> u_id u)"

subsection \<open>Plain objects used as dictionaries\<close>

text \<open>
  An object literal filled by assignment keeps its string keys in insertion order: an
  association list. \<open>obj_set\<close> is \<^verbatim>\<open>o[k] = v\<close>: an existing key keeps its place, a new
  key goes to the end. A lookup \<^verbatim>\<open>o[k]\<close> is \<open>map_of\<close>. Only own properties are
  modelled: a key that names a member of \<^verbatim>\<open>Object.prototype\<close> (\<^verbatim>\<open>constructor\<close>,
  \<^verbatim>\<open>toString\<close> and the like) is outside the model. The string keys are taken not to be
  array indices: user ids are the 24 hexadecimal digits of an ObjectId, statuses and types
  are words.
\<close>

fun obj_set :: "('k \<times> 'v) list \<Rightarrow> 'k \<Rightarrow> 'v \<Rightarrow> ('k \<times> 'v) list" where
  "obj_set [] k v = [(k, v)]"
| "obj_set ((k', v') # xs) k v =
     (if k' = k then (k, v) # xs else (k', v') # obj_set xs k v)"

text \<open>\<^verbatim>\<open>h[k] = (h[k] || 0) + 1\<close> on an object whose values are counters.\<close>

definition hist_bump :: "('k \<times> nat) list \<Rightarrow> 'k \<Rightarrow> ('k \<times> nat) list" where
  "hist_bump h k = obj_set h k ((case map_of h k of None \<Rightarrow> 0 | Some n \<Rightarrow> n) + 1)"

text \<open>
  The same on an object whose keys are array indices (small natural numbers): such keys
  are kept in ascending order, whatever the order of insertion.
\<close>

fun index_bump :: "(nat \<times> nat) list \<Rightarrow> nat \<Rightarrow> (nat \<times> nat) list" where
  "index_bump [] k = [(k, 1)]"
| "index_bump ((k', n) # h) k =
     (if k = k' then (k', n + 1) # h
      else if k < k' then (k, 1) # (k', n) # h
      else (k', n) # index_bump h k)"

text \<open>\<^verbatim>\<open>Object.values(o)\<close>.\<close>

definition obj_values :: "('k \<times> 'v) list \<Rightarrow> 'v list" where
  "obj_values xs = map snd xs"

section \<open>Tasks\<close>

record task =
  t_status :: "string option"
  t_taskType :: "string option"
  t_assignedTo :: "user_ref option"

text \<open>
  The value of a property that can hold a string or a number. The per-person object of the
  task aggregate keeps its identifying fields, its counters and its status buckets in one
  namespace, and the loop writes \<^verbatim>\<open>o[task.status] = (o[task.status] || 0) + 1\<close> into it:
  a status that names one of the fixed properties writes to that property.
\<close>

datatype jsval = JNum nat | JStr string

text \<open>\<^verbatim>\<open>(v || 0) + 1\<close>: a number is incremented, a non-empty string gets \<^verbatim>\<open>"1"\<close> appended.\<close>

fun or0_plus1 :: "jsval \<Rightarrow> jsval" where
  "or0_plus1 (JNum n) = JNum (n + 1)"
| "or0_plus1 (JStr s) = (if s = [] then JNum 1 else JStr (s @ ''1''))"

record task_person =
  tp_userId :: jsval
  tp_username :: jsval
  tp_email :: jsval
  tp_total :: nat
  tp_oneOff :: nat
  tp_cyclic :: nat
  tp_buckets :: "(string \<times> nat) list"

record task_stats =
  ts_total :: nat
  ts_oneOff :: nat
  ts_cyclic :: nat
  ts_byPerson :: "(string \<times> task_person) list"
  ts_byStatus :: "(string \<times> nat) list"
  ts_byType :: "(string \<times> nat) list"

definition task_person_init :: "string \<Rightarrow> user_ref \<Rightarrow> task_person" where
  "task_person_init userId u =
     \<lparr>tp_userId = JStr userId, tp_username = JStr (or_else (u_username u) ''Unknown''),
      tp_email = JStr (or_else (u_email u) []), tp_total = 0, tp_oneOff = 0, tp_cyclic = 0,
      tp_buckets = [(''pending'', 0), (''in-progress'', 0), (''completed'', 0), (''overdue'', 0)]\<rparr>"

text \<open>\<^verbatim>\<open>o[status] = (o[status] || 0) + 1\<close> on a per-person object.\<close>

definition task_person_bump :: "task_person \<Rightarrow> string \<Rightarrow> task_person" where
  "task_person_bump r k =
     (if k = ''userId'' then r\<lparr>tp_userId := or0_plus1 (tp_userId r)\<rparr>
      else if k = ''username'' then r\<lparr>tp_username := or0_plus1 (tp_username r)\<rparr>
      else if k = ''email'' then r\<lparr>tp_email := or0_plus1 (tp_email r)\<rparr>
      else if k = ''total'' then r\<lparr>tp_total := tp_total r + 1\<rparr>
      else if k = ''oneOff'' then r\<lparr>tp_oneOff := tp_oneOff r + 1\<rparr>
      else if k = ''cyclic'' then r\<lparr>tp_cyclic := tp_cyclic r + 1\<rparr>
      else r\<lparr>tp_buckets := hist_bump (tp_buckets r) k\<rparr>)"

definition task_person_count :: "task_person \<Rightarrow> task \<Rightarrow> task_person" where
  "task_person_count r t =
     (let r1 = r\<lparr>tp_total := tp_total r + 1\<rparr>;
          r2 = (if t_taskType t = Some ''one-time'' then r1\<lparr>tp_oneOff := tp_oneOff r1 + 1\<rparr>
                else r1\<lparr>tp_cyclic := tp_cyclic r1 + 1\<rparr>)
      in (case t_status t of
            None \<Rightarrow> r2
          | Some k \<Rightarrow> (if k = [] then r2 else task_person_bump r2 k)))"

definition task_person_step ::
  "(string \<times> task_person) list \<Rightarrow> task \<Rightarrow> (string \<times> task_person) list" where
  "task_person_step bp t =
     (case t_assignedTo t of
        None \<Rightarrow> bp
      | Some u \<Rightarrow>
          (case u_id u of
             None \<Rightarrow> bp
           | Some userId \<Rightarrow>
               (let r = (case map_of bp userId of
                           None \<Rightarrow> task_person_init userId u
                         | Some r0 \<Rightarrow> r0)
                in obj_set bp userId (task_person_count r t))))"

text \<open>\<^verbatim>\<open>if (key) h[key] = (h[key] || 0) + 1\<close>: a missing or empty key is skipped.\<close>

definition hist_bump_if :: "(string \<times> nat) list \<Rightarrow> string option \<Rightarrow> (string \<times> nat) list" where
  "hist_bump_if h key =
     (case key of None \<Rightarrow> h | Some k \<Rightarrow> (if k = [] then h else hist_bump h k))"

definition task_step :: "task_stats \<Rightarrow> task \<Rightarrow> task_stats" where
  "task_step s t =
     (let s1 = s\<lparr>ts_byStatus := hist_bump_if (ts_byStatus s) (t_status t)\<rparr>;
          s2 = s1\<lparr>ts_byType := hist_bump_if (ts_byType s1) (t_taskType t)\<rparr>
      in s2\<lparr>ts_byPerson := task_person_step (ts_byPerson s2) t\<rparr>)"

definition task_init :: "task list \<Rightarrow> task_stats" where
  "task_init tasks =
     \<lparr>ts_total = length tasks,
      ts_oneOff = length (filter (\<lambda>t. t_taskType t = Some ''one-time'') tasks),
      ts_cyclic = length (filter (\<lambda>t. t_taskType t \<noteq> Some ''one-time'') tasks),
      ts_byPerson = [],
      ts_byStatus = [(''pending'', 0), (''in-progress'', 0), (''completed'', 0), (''overdue'', 0)],
      ts_byType = [(''one-time'', 0), (''daily'', 0), (''weekly'', 0), (''monthly'', 0),
                   (''quarterly'', 0), (''yearly'', 0)]\<rparr>"

definition taskStats :: "task list \<Rightarrow> task_stats" where
  "taskStats tasks = foldl task_step (task_init tasks) tasks"

section \<open>Workflow instances (FMS projects)\<close>

record step =
  st_stepNo :: "nat option"
  st_status :: "string option"
  st_who :: "user_ref option"

record project =
  p_tasks :: "step list"

record fms_person =
  fp_userId :: string
  fp_username :: string
  fp_email :: string
  fp_total :: nat
  fp_inProgress :: nat
  fp_completed :: nat
  fp_pendingSteps :: "nat list"

record fms_stats =
  fms_total :: nat
  fms_inProgress :: nat
  fms_completed :: nat
  fms_byPerson :: "(string \<times> fms_person) list"
  fms_stepStatusBreakdown :: "(nat \<times> nat) list"

definition allTasksDone :: "project \<Rightarrow> bool" where
  "allTasksDone p = list_all (\<lambda>t. st_status t = Some ''Done'') (p_tasks p)"

definition hasInProgress :: "project \<Rightarrow> bool" where
  "hasInProgress p =
     list_ex (\<lambda>t. st_status t = Some ''In Progress'' \<or> st_status t = Some ''Pending'') (p_tasks p)"

text \<open>The overall status of one project: the \<^verbatim>\<open>if / else if\<close> of the loop body.\<close>

definition fms_overall :: "fms_stats \<Rightarrow> project \<Rightarrow> fms_stats" where
  "fms_overall s p =
     (if allTasksDone p then s\<lparr>fms_completed := fms_completed s + 1\<rparr>
      else if hasInProgress p then s\<lparr>fms_inProgress := fms_inProgress s + 1\<rparr>
      else s)"

definition pendingStep :: "project \<Rightarrow> step option" where
  "pendingStep p =
     find (\<lambda>t. st_status t = Some ''Pending'' \<or> st_status t = Some ''In Progress''
              \<or> st_status t = Some ''Not Started'') (p_tasks p)"

text \<open>\<^verbatim>\<open>t.stepNo || 0\<close>.\<close>

definition stepNo_or0 :: "step \<Rightarrow> nat" where
  "stepNo_or0 t = (case st_stepNo t of None \<Rightarrow> 0 | Some n \<Rightarrow> n)"

definition fms_breakdown :: "fms_stats \<Rightarrow> project \<Rightarrow> fms_stats" where
  "fms_breakdown s p =
     (case pendingStep p of
        None \<Rightarrow> s
      | Some t \<Rightarrow>
          s\<lparr>fms_stepStatusBreakdown := index_bump (fms_stepStatusBreakdown s) (stepNo_or0 t)\<rparr>)"

definition fms_person_init :: "string \<Rightarrow> user_ref \<Rightarrow> fms_person" where
  "fms_person_init userId u =
     \<lparr>fp_userId = userId, fp_username = or_else (u_username u) ''Unknown'',
      fp_email = or_else (u_email u) '''', fp_total = 0, fp_inProgress = 0,
      fp_completed = 0, fp_pendingSteps = []\<rparr>"

definition fms_person_count :: "fms_person \<Rightarrow> step \<Rightarrow> fms_person" where
  "fms_person_count r t =
     (let r1 = r\<lparr>fp_total := fp_total r + 1\<rparr>
      in if st_status t = Some ''In Progress'' then r1\<lparr>fp_inProgress := fp_inProgress r1 + 1\<rparr>
         else if st_status t = Some ''Done'' then r1\<lparr>fp_completed := fp_completed r1 + 1\<rparr>
         else r1\<lparr>fp_pendingSteps := fp_pendingSteps r1 @ [stepNo_or0 t]\<rparr>)"

text \<open>The inner loop body: one step of one project.\<close>

definition fms_person_step ::
  "(string \<times> fms_person) list \<Rightarrow> step \<Rightarrow> (string \<times> fms_person) list" where
  "fms_person_step bp t =
     (case st_who t of
        None \<Rightarrow> bp
      | Some u \<Rightarrow>
          (case u_id u of
             None \<Rightarrow> bp
           | Some userId \<Rightarrow>
               (let r = (case map_of bp userId of
                           None \<Rightarrow> fms_person_init userId u
                         | Some r0 \<Rightarrow> r0)
                in obj_set bp userId (fms_person_count r t))))"

text \<open>The outer loop body: one project.\<close>

definition fms_project_step :: "fms_stats \<Rightarrow> project \<Rightarrow> fms_stats" where
  "fms_project_step s p =
     (let s1 = fms_overall s p;
          s2 = fms_breakdown s1 p
      in s2\<lparr>fms_byPerson := foldl fms_person_step (fms_byPerson s2) (p_tasks p)\<rparr>)"

definition fms_init :: "project list \<Rightarrow> fms_stats" where
  "fms_init projects =
     \<lparr>fms_total = length projects, fms_inProgress = 0, fms_completed = 0,
      fms_byPerson = [], fms_stepStatusBreakdown = []\<rparr>"

definition fmsStats :: "project list \<Rightarrow> fms_stats" where
  "fmsStats projects = foldl fms_project_step (fms_init projects) projects"

section \<open>Checklists\<close>

record checklist =
  c_status :: "string option"
  c_assignedTo :: "user_ref option"

record checklist_person =
  cp_userId :: string
  cp_username :: string
  cp_email :: string
  cp_total :: nat
  cp_done :: nat
  cp_notDone :: nat

record checklist_stats =
  cl_total :: nat
  cl_done :: nat
  cl_notDone :: nat
  cl_byPerson :: "(string \<times> checklist_person) list"

definition checklist_person_init :: "string \<Rightarrow> user_ref \<Rightarrow> checklist_person" where
  "checklist_person_init userId u =
     \<lparr>cp_userId = userId, cp_username = or_else (u_username u) ''Unknown'',
      cp_email = or_else (u_email u) [], cp_total = 0, cp_done = 0, cp_notDone = 0\<rparr>"

definition checklist_person_count :: "checklist_person \<Rightarrow> checklist \<Rightarrow> checklist_person" where
  "checklist_person_count r c =
     (let r1 = r\<lparr>cp_total := cp_total r + 1\<rparr>
      in if c_status c = Some ''Submitted'' then r1\<lparr>cp_done := cp_done r1 + 1\<rparr>
         else r1\<lparr>cp_notDone := cp_notDone r1 + 1\<rparr>)"

definition checklist_person_step ::
  "(string \<times> checklist_person) list \<Rightarrow> checklist \<Rightarrow> (string \<times> checklist_person) list" where
  "checklist_person_step bp c =
     (case c_assignedTo c of
        None \<Rightarrow> bp
      | Some u \<Rightarrow>
          (case u_id u of
             None \<Rightarrow> bp
           | Some userId \<Rightarrow>
               (let r = (case map_of bp userId of
                           None \<Rightarrow> checklist_person_init userId u
                         | Some r0 \<Rightarrow> r0)
                in obj_set bp userId (checklist_person_count r c))))"

definition checklist_step :: "checklist_stats \<Rightarrow> checklist \<Rightarrow> checklist_stats" where
  "checklist_step s c =
     (let s1 = (if c_status c = Some ''Submitted'' then s\<lparr>cl_done := cl_done s + 1\<rparr>
                else s\<lparr>cl_notDone := cl_notDone s + 1\<rparr>)
      in s1\<lparr>cl_byPerson := checklist_person_step (cl_byPerson s1) c\<rparr>)"

definition checklist_init :: "checklist list \<Rightarrow> checklist_stats" where
  "checklist_init checklists =
     \<lparr>cl_total = length checklists, cl_done = 0, cl_notDone = 0, cl_byPerson = []\<rparr>"

definition checklistStats :: "checklist list \<Rightarrow> checklist_stats" where
  "checklistStats checklists = foldl checklist_step (checklist_init checklists) checklists"

section \<open>Help tickets\<close>

record help_ticket =
  h_status :: "string option"
  h_assignedTo :: "user_ref option"
  h_raisedBy :: "user_ref option"

record ticket_person =
  hp_userId :: string
  hp_username :: string
  hp_email :: string
  hp_total :: nat
  hp_open :: nat
  hp_in_progress :: nat
  hp_closed :: nat

record ticket_stats =
  ht_total :: nat
  ht_open :: nat
  ht_in_progress :: nat
  ht_closed :: nat
  ht_byPerson :: "(string \<times> ticket_person) list"

text \<open>
  \<^verbatim>\<open>toLowerCase\<close> on the ASCII letters; every other character is left as it is. The
  four status words the loop compares with are ASCII, and no character outside ASCII
  lower-cases to one of their letters.
\<close>

definition lower_char :: "char \<Rightarrow> char" where
  "lower_char c =
     (let n = (of_char c :: nat) in if 65 \<le> n \<and> n \<le> 90 then char_of (n + 32) else c)"

definition toLowerCase :: "string \<Rightarrow> string" where
  "toLowerCase s = map lower_char s"

text \<open>\<^verbatim>\<open>ticket.status?.toLowerCase() || 'open'\<close>.\<close>

definition ticket_status :: "help_ticket \<Rightarrow> string" where
  "ticket_status t =
     (case h_status t of
        None \<Rightarrow> ''open''
      | Some s \<Rightarrow> (if toLowerCase s = [] then ''open'' else toLowerCase s))"

text \<open>\<^verbatim>\<open>ticket.assignedTo?._id || ticket.raisedBy?._id\<close>.\<close>

definition ticket_personId :: "help_ticket \<Rightarrow> string option" where
  "ticket_personId t =
     (case ref_id (h_assignedTo t) of
        Some i \<Rightarrow> Some i
      | None \<Rightarrow> ref_id (h_raisedBy t))"

text \<open>\<^verbatim>\<open>ticket.assignedTo || ticket.raisedBy\<close>.\<close>

definition ticket_person_ref :: "help_ticket \<Rightarrow> user_ref option" where
  "ticket_person_ref t =
     (case h_assignedTo t of
        Some a \<Rightarrow> Some a
      | None \<Rightarrow> h_raisedBy t)"

definition ticket_person_init :: "string \<Rightarrow> user_ref \<Rightarrow> ticket_person" where
  "ticket_person_init userId u =
     \<lparr>hp_userId = userId, hp_username = or_else (u_username u) ''Unknown'',
      hp_email = or_else (u_email u) [], hp_total = 0, hp_open = 0, hp_in_progress = 0,
      hp_closed = 0\<rparr>"

definition ticket_person_count :: "ticket_person \<Rightarrow> string \<Rightarrow> ticket_person" where
  "ticket_person_count r status =
     (let r1 = r\<lparr>hp_total := hp_total r + 1\<rparr>
      in if status = ''open'' then r1\<lparr>hp_open := hp_open r1 + 1\<rparr>
         else if status = ''in progress'' then r1\<lparr>hp_in_progress := hp_in_progress r1 + 1\<rparr>
         else if status = ''closed'' \<or> status = ''verified & closed''
         then r1\<lparr>hp_closed := hp_closed r1 + 1\<rparr>
         else r1)"

text \<open>
  The person-wise part of the loop body. Inside \<^verbatim>\<open>if (personId)\<close> one of the two
  references is present, so \<open>ticket_person_ref\<close> is never \<open>None\<close> there
  (lemma \<open>ticket_person_ref_present\<close>).
\<close>

definition ticket_person_step ::
  "(string \<times> ticket_person) list \<Rightarrow> help_ticket \<Rightarrow> (string \<times> ticket_person) list" where
  "ticket_person_step bp t =
     (case ticket_personId t of
        None \<Rightarrow> bp
      | Some userId \<Rightarrow>
          (case ticket_person_ref t of
             None \<Rightarrow> bp
           | Some person \<Rightarrow>
               (let r = (case map_of bp userId of
                           None \<Rightarrow> ticket_person_init userId person
                         | Some r0 \<Rightarrow> r0)
                in obj_set bp userId (ticket_person_count r (ticket_status t)))))"

definition ticket_step :: "ticket_stats \<Rightarrow> help_ticket \<Rightarrow> ticket_stats" where
  "ticket_step s t =
     (let status = ticket_status t;
          s1 = (if status = ''open'' then s\<lparr>ht_open := ht_open s + 1\<rparr>
                else if status = ''in progress'' then s\<lparr>ht_in_progress := ht_in_progress s + 1\<rparr>
                else if status = ''closed'' \<or> status = ''verified & closed''
                then s\<lparr>ht_closed := ht_closed s + 1\<rparr>
                else s)
      in s1\<lparr>ht_byPerson := ticket_person_step (ht_byPerson s1) t\<rparr>)"

definition ticket_init :: "help_ticket list \<Rightarrow> ticket_stats" where
  "ticket_init helpTickets =
     \<lparr>ht_total = length helpTickets, ht_open = 0, ht_in_progress = 0, ht_closed = 0,
      ht_byPerson = []\<rparr>"

definition helpTicketStats :: "help_ticket list \<Rightarrow> ticket_stats" where
  "helpTicketStats helpTickets = foldl ticket_step (ticket_init helpTickets) helpTickets"

section \<open>The response's person arrays\<close>

text \<open>Decimal digits of a number, as \<^verbatim>\<open>Number.prototype.toString\<close> prints a natural number.\<close>

fun string_of_nat :: "nat \<Rightarrow> string" where
  "string_of_nat n =
     (if n < 10 then [char_of (48 + n)]
      else string_of_nat (n div 10) @ [char_of (48 + n mod 10)])"

declare string_of_nat.simps [simp del]

fun js_toString :: "jsval \<Rightarrow> string" where
  "js_toString (JNum n) = string_of_nat n"
| "js_toString (JStr s) = s"

text \<open>
  \<^verbatim>\<open>Object.values(stats).map(person => ({...person, userId: person.userId.toString()}))\<close>.
  Where \<open>userId\<close> is a string already, \<^verbatim>\<open>toString\<close> returns it unchanged.
\<close>

definition convertPersonStats :: "(string \<times> 'r) list \<Rightarrow> 'r list" where
  "convertPersonStats stats = obj_values stats"

definition task_convertPersonStats :: "(string \<times> task_person) list \<Rightarrow> task_person list" where
  "task_convertPersonStats stats =
     map (\<lambda>person. person\<lparr>tp_userId := JStr (js_toString (tp_userId person))\<rparr>) (obj_values stats)"

section \<open>Reading the query: parseInt\<close>







section \<open>The period: the Date constructor and getMonthRange\<close>












subsection \<open>The calendar, by counting days\<close>








section \<open>The report handler\<close>

record user_doc =
  ud_id :: string
  ud_username :: "string option"
  ud_email :: "string option"














section \<open>The purchase dashboard and its cache\<close>

datatype json =
  JNull
| JBool bool
| JNumber int
| JString string
| JArray "json list"
| JObject "(string \<times> json) list"











section \<open>Quantities the properties speak about\<close>

text \<open>A record has a resolvable assignee when the loop enters its person-wise branch.\<close>

definition task_assigned :: "task \<Rightarrow> bool" where
  "task_assigned t = (ref_id (t_assignedTo t) \<noteq> None)"

definition checklist_assigned :: "checklist \<Rightarrow> bool" where
  "checklist_assigned c = (ref_id (c_assignedTo c) \<noteq> None)"

definition ticket_assigned :: "help_ticket \<Rightarrow> bool" where
  "ticket_assigned t = (ticket_personId t \<noteq> None)"

definition step_assigned :: "step \<Rightarrow> bool" where
  "step_assigned t = (ref_id (st_who t) \<noteq> None)"

text \<open>The number of records of a collection with a property.\<close>

definition count_where :: "('a \<Rightarrow> bool) \<Rightarrow> 'a list \<Rightarrow> nat" where
  "count_where P xs = length (filter P xs)"

text \<open>All steps of all fetched projects, in loop order.\<close>

definition all_steps :: "project list \<Rightarrow> step list" where
  "all_steps projects = concat (map p_tasks projects)"






section \<open>Example documents\<close>

text \<open>The users of the specification's scenarios, as populated references.\<close>

abbreviation userA :: user_ref where
  "userA \<equiv> \<lparr>u_id = Some ''userA'', u_username = Some ''alice'', u_email = Some ''a@x.io''\<rparr>"



section \<open>Dictionary lemmas\<close>

lemma sum_obj_set:
  fixes g :: "'v \<Rightarrow> nat"
  shows "sum_list (map (\<lambda>kv. g (snd kv)) (obj_set xs k v))
           + (case map_of xs k of None \<Rightarrow> 0 | Some old \<Rightarrow> g old)
         = sum_list (map (\<lambda>kv. g (snd kv)) xs) + g v"
  by (induction xs) auto





text \<open>
  The shape every person-wise loop body has: look the person up, start from a fresh record
  when it is new, count, and store. If counting adds \<open>d\<close> to a quantity \<open>g\<close> that is
  zero on a fresh record, the sum of \<open>g\<close> over the dictionary grows by \<open>d\<close>.
\<close>

lemma sum_upsert:
  fixes g :: "'v \<Rightarrow> nat"
  assumes "g fresh = 0" and "\<And>r. g (f r) = g r + d"
  shows "sum_list (map (\<lambda>kv. g (snd kv))
           (obj_set bp k (f (case map_of bp k of None \<Rightarrow> fresh | Some r0 \<Rightarrow> r0))))
         = sum_list (map (\<lambda>kv. g (snd kv)) bp) + d"
  using sum_obj_set [of g bp k "f (case map_of bp k of None \<Rightarrow> fresh | Some r0 \<Rightarrow> r0)"] assms
  by (simp split: option.splits)


section \<open>The loop body of the workflow aggregate\<close>

lemma fms_project_step_completed:
  "fms_completed (fms_project_step s p) = fms_completed s + (if allTasksDone p then 1 else 0)"
  by (simp add: fms_project_step_def fms_overall_def fms_breakdown_def Let_def
      split: option.splits)

lemma fms_project_step_inProgress:
  "fms_inProgress (fms_project_step s p) =
     fms_inProgress s + (if \<not> allTasksDone p \<and> hasInProgress p then 1 else 0)"
  by (simp add: fms_project_step_def fms_overall_def fms_breakdown_def Let_def
      split: option.splits)

lemma fms_project_step_total:
  "fms_total (fms_project_step s p) = fms_total s"
  by (simp add: fms_project_step_def fms_overall_def fms_breakdown_def Let_def
      split: option.splits)

section \<open>The sum of the per-person totals\<close>

lemma task_convert_totals:
  "map tp_total (task_convertPersonStats bp) = map (\<lambda>kv. tp_total (snd kv)) bp"
  by (simp add: task_convertPersonStats_def obj_values_def comp_def)

lemma convert_map: "map g (convertPersonStats bp) = map (\<lambda>kv. g (snd kv)) bp"
  by (simp add: convertPersonStats_def obj_values_def comp_def)

lemma task_person_count_total:
  "t_status t \<noteq> Some ''total'' \<Longrightarrow> tp_total (task_person_count r t) = tp_total r + 1"
  by (simp add: task_person_count_def task_person_bump_def Let_def split: option.splits)

lemma task_person_step_sum:
  assumes "t_status t \<noteq> Some ''total''"
  shows "sum_list (map (\<lambda>kv. tp_total (snd kv)) (task_person_step bp t))
         = sum_list (map (\<lambda>kv. tp_total (snd kv)) bp) + (if task_assigned t then 1 else 0)"
proof (cases "t_assignedTo t")
  case None
  then show ?thesis by (simp add: task_person_step_def task_assigned_def ref_id_def)
next
  case (Some u)
  show ?thesis
  proof (cases "u_id u")
    case None
    with Some show ?thesis by (simp add: task_person_step_def task_assigned_def ref_id_def)
  next
    case (Some userId)
    have "sum_list (map (\<lambda>kv. tp_total (snd kv))
            (obj_set bp userId ((\<lambda>r. task_person_count r t)
               (case map_of bp userId of None \<Rightarrow> task_person_init userId u | Some r0 \<Rightarrow> r0))))
          = sum_list (map (\<lambda>kv. tp_total (snd kv)) bp) + 1"
      by (rule sum_upsert) (simp_all add: task_person_init_def task_person_count_total [OF assms])
    with Some \<open>t_assignedTo t = Some u\<close> show ?thesis
      by (simp add: task_person_step_def task_assigned_def ref_id_def Let_def)
  qed
qed

lemma task_step_byPerson:
  "ts_byPerson (task_step s t) = task_person_step (ts_byPerson s) t"
  by (simp add: task_step_def Let_def)

lemma task_step_total: "ts_total (task_step s t) = ts_total s"
  by (simp add: task_step_def Let_def)

lemma task_fold_total: "ts_total (foldl task_step s ts) = ts_total s"
  by (induction ts arbitrary: s) (simp_all add: task_step_total)

lemma task_fold_person_sum:
  assumes "\<forall>t\<in>set ts. t_status t \<noteq> Some ''total''"
  shows "sum_list (map (\<lambda>kv. tp_total (snd kv)) (ts_byPerson (foldl task_step s ts)))
         = sum_list (map (\<lambda>kv. tp_total (snd kv)) (ts_byPerson s)) + count_where task_assigned ts"
  using assms
proof (induction ts arbitrary: s)
  case Nil
  then show ?case by (simp add: count_where_def)
next
  case (Cons t ts)
  then show ?case
    by (simp add: task_step_byPerson task_person_step_sum count_where_def)
qed

lemma count_where_compl: "count_where P xs + count_where (\<lambda>x. \<not> P x) xs = length xs"
  by (simp add: count_where_def sum_length_filter_compl)

lemma tasks_total_by_person:
  assumes "\<forall>t\<in>set tasks. t_status t \<noteq> Some ''total''"
  shows "ts_total (taskStats tasks)
         = sum_list (map tp_total (task_convertPersonStats (ts_byPerson (taskStats tasks))))
           + count_where (\<lambda>t. \<not> task_assigned t) tasks"
  using task_fold_person_sum [OF assms, of "task_init tasks"]
        count_where_compl [of task_assigned tasks]
  by (simp add: taskStats_def task_fold_total task_convert_totals task_init_def)

text \<open>Checklists.\<close>

lemma checklist_person_step_sum:
  "sum_list (map (\<lambda>kv. cp_total (snd kv)) (checklist_person_step bp c))
   = sum_list (map (\<lambda>kv. cp_total (snd kv)) bp) + (if checklist_assigned c then 1 else 0)"
proof (cases "c_assignedTo c")
  case None
  then show ?thesis by (simp add: checklist_person_step_def checklist_assigned_def ref_id_def)
next
  case (Some u)
  show ?thesis
  proof (cases "u_id u")
    case None
    with Some show ?thesis
      by (simp add: checklist_person_step_def checklist_assigned_def ref_id_def)
  next
    case (Some userId)
    have "sum_list (map (\<lambda>kv. cp_total (snd kv))
            (obj_set bp userId ((\<lambda>r. checklist_person_count r c)
               (case map_of bp userId of None \<Rightarrow> checklist_person_init userId u | Some r0 \<Rightarrow> r0))))
          = sum_list (map (\<lambda>kv. cp_total (snd kv)) bp) + 1"
      by (rule sum_upsert)
         (simp_all add: checklist_person_init_def checklist_person_count_def Let_def)
    with Some \<open>c_assignedTo c = Some u\<close> show ?thesis
      by (simp add: checklist_person_step_def checklist_assigned_def ref_id_def Let_def)
  qed
qed

lemma checklist_step_byPerson:
  "cl_byPerson (checklist_step s c) = checklist_person_step (cl_byPerson s) c"
  by (simp add: checklist_step_def Let_def)

lemma checklist_step_total: "cl_total (checklist_step s c) = cl_total s"
  by (simp add: checklist_step_def Let_def)

lemma checklist_fold_total: "cl_total (foldl checklist_step s cs) = cl_total s"
  by (induction cs arbitrary: s) (simp_all add: checklist_step_total)

lemma checklist_fold_person_sum:
  "sum_list (map (\<lambda>kv. cp_total (snd kv)) (cl_byPerson (foldl checklist_step s cs)))
   = sum_list (map (\<lambda>kv. cp_total (snd kv)) (cl_byPerson s)) + count_where checklist_assigned cs"
  by (induction cs arbitrary: s)
     (simp_all add: checklist_step_byPerson checklist_person_step_sum count_where_def)

lemma checklists_total_by_person:
  "cl_total (checklistStats cs)
   = sum_list (map cp_total (convertPersonStats (cl_byPerson (checklistStats cs))))
     + count_where (\<lambda>c. \<not> checklist_assigned c) cs"
  using checklist_fold_person_sum [of "checklist_init cs" cs]
        count_where_compl [of checklist_assigned cs]
  by (simp add: checklistStats_def checklist_fold_total convert_map checklist_init_def)

text \<open>Help tickets.\<close>

lemma ticket_person_ref_present:
  "ticket_personId t = Some i \<Longrightarrow> ticket_person_ref t \<noteq> None"
  by (auto simp: ticket_personId_def ticket_person_ref_def ref_id_def split: option.splits)

lemma ticket_person_count_total: "hp_total (ticket_person_count r status) = hp_total r + 1"
  by (simp add: ticket_person_count_def Let_def)

lemma ticket_person_step_sum:
  "sum_list (map (\<lambda>kv. hp_total (snd kv)) (ticket_person_step bp t))
   = sum_list (map (\<lambda>kv. hp_total (snd kv)) bp) + (if ticket_assigned t then 1 else 0)"
proof (cases "ticket_personId t")
  case None
  then show ?thesis by (simp add: ticket_person_step_def ticket_assigned_def)
next
  case (Some userId)
  then obtain person where p: "ticket_person_ref t = Some person"
    using ticket_person_ref_present by fastforce
  have "sum_list (map (\<lambda>kv. hp_total (snd kv))
          (obj_set bp userId ((\<lambda>r. ticket_person_count r (ticket_status t))
             (case map_of bp userId of None \<Rightarrow> ticket_person_init userId person | Some r0 \<Rightarrow> r0))))
        = sum_list (map (\<lambda>kv. hp_total (snd kv)) bp) + 1"
    by (rule sum_upsert) (simp_all add: ticket_person_init_def ticket_person_count_total)
  with Some p show ?thesis
    by (simp add: ticket_person_step_def ticket_assigned_def Let_def)
qed

lemma ticket_step_byPerson:
  "ht_byPerson (ticket_step s t) = ticket_person_step (ht_byPerson s) t"
  by (simp add: ticket_step_def Let_def)

lemma ticket_step_total: "ht_total (ticket_step s t) = ht_total s"
  by (simp add: ticket_step_def Let_def)

lemma ticket_fold_total: "ht_total (foldl ticket_step s ts) = ht_total s"
  by (induction ts arbitrary: s) (simp_all add: ticket_step_total)

lemma ticket_fold_person_sum:
  "sum_list (map (\<lambda>kv. hp_total (snd kv)) (ht_byPerson (foldl ticket_step s ts)))
   = sum_list (map (\<lambda>kv. hp_total (snd kv)) (ht_byPerson s)) + count_where ticket_assigned ts"
  by (induction ts arbitrary: s)
     (simp_all add: ticket_step_byPerson ticket_person_step_sum count_where_def)

lemma tickets_total_by_person:
  "ht_total (helpTicketStats ts)
   = sum_list (map hp_total (convertPersonStats (ht_byPerson (helpTicketStats ts))))
     + count_where (\<lambda>t. \<not> ticket_assigned t) ts"
  using ticket_fold_person_sum [of "ticket_init ts" ts]
        count_where_compl [of ticket_assigned ts]
  by (simp add: helpTicketStats_def ticket_fold_total convert_map ticket_init_def)

text \<open>Workflow steps: the person-wise sum counts steps, not projects.\<close>

lemma fms_person_count_total: "fp_total (fms_person_count r t) = fp_total r + 1"
  by (simp add: fms_person_count_def Let_def)

lemma fms_person_step_sum:
  "sum_list (map (\<lambda>kv. fp_total (snd kv)) (fms_person_step bp t))
   = sum_list (map (\<lambda>kv. fp_total (snd kv)) bp) + (if step_assigned t then 1 else 0)"
proof (cases "st_who t")
  case None
  then show ?thesis by (simp add: fms_person_step_def step_assigned_def ref_id_def)
next
  case (Some u)
  show ?thesis
  proof (cases "u_id u")
    case None
    with Some show ?thesis by (simp add: fms_person_step_def step_assigned_def ref_id_def)
  next
    case (Some userId)
    have "sum_list (map (\<lambda>kv. fp_total (snd kv))
            (obj_set bp userId ((\<lambda>r. fms_person_count r t)
               (case map_of bp userId of None \<Rightarrow> fms_person_init userId u | Some r0 \<Rightarrow> r0))))
          = sum_list (map (\<lambda>kv. fp_total (snd kv)) bp) + 1"
      by (rule sum_upsert) (simp_all add: fms_person_init_def fms_person_count_total)
    with Some \<open>st_who t = Some u\<close> show ?thesis
      by (simp add: fms_person_step_def step_assigned_def ref_id_def Let_def)
  qed
qed

lemma fms_steps_fold_sum:
  "sum_list (map (\<lambda>kv. fp_total (snd kv)) (foldl fms_person_step bp ts))
   = sum_list (map (\<lambda>kv. fp_total (snd kv)) bp) + count_where step_assigned ts"
  by (induction ts arbitrary: bp) (simp_all add: fms_person_step_sum count_where_def)

lemma fms_project_step_byPerson:
  "fms_byPerson (fms_project_step s p) = foldl fms_person_step (fms_byPerson s) (p_tasks p)"
  by (simp add: fms_project_step_def fms_overall_def fms_breakdown_def Let_def
      split: option.splits)

lemma fms_fold_person_sum:
  "sum_list (map (\<lambda>kv. fp_total (snd kv)) (fms_byPerson (foldl fms_project_step s ps)))
   = sum_list (map (\<lambda>kv. fp_total (snd kv)) (fms_byPerson s))
     + count_where step_assigned (all_steps ps)"
  by (induction ps arbitrary: s)
     (simp_all add: fms_project_step_byPerson fms_steps_fold_sum count_where_def all_steps_def)

lemma fms_fold_total: "fms_total (foldl fms_project_step s ps) = fms_total s"
  by (induction ps arbitrary: s) (simp_all add: fms_project_step_total)

lemma fms_person_sum_counts_steps:
  "sum_list (map fp_total (convertPersonStats (fms_byPerson (fmsStats ps))))
   = count_where step_assigned (all_steps ps)"
  using fms_fold_person_sum [of "fms_init ps" ps]
  by (simp add: fmsStats_def convert_map fms_init_def)

section \<open>Totals and histograms\<close>




















section \<open>Per-person records\<close>


















section \<open>Help tickets: the person a ticket is attributed to\<close>










section \<open>The day arithmetic and the calendar\<close>






















section \<open>Reading and validating the query\<close>












section \<open>C1: the total and the per-person totals\<close>

text \<open>
  C1 as stated fails for the workflow aggregate: its \<open>total\<close> counts projects, its
  per-person totals count steps. One project with two steps, both done by the same
  person, has \<open>total = 1\<close>, a per-person sum of \<open>2\<close>, and neither a step nor a project
  without assignee.
\<close>

theorem fms_total_not_person_sum_counterexample:
  "fms_total (fmsStats
     [\<lparr>p_tasks = [\<lparr>st_stepNo = Some 1, st_status = Some ''Done'', st_who = Some userA\<rparr>,
                  \<lparr>st_stepNo = Some 2, st_status = Some ''Pending'', st_who = Some userA\<rparr>]\<rparr>]) = 1
   \<and> sum_list (map fp_total (convertPersonStats (fms_byPerson (fmsStats
     [\<lparr>p_tasks = [\<lparr>st_stepNo = Some 1, st_status = Some ''Done'', st_who = Some userA\<rparr>,
                  \<lparr>st_stepNo = Some 2, st_status = Some ''Pending'', st_who = Some userA\<rparr>]\<rparr>])))) = 2
   \<and> count_where (\<lambda>t. \<not> step_assigned t) (all_steps
     [\<lparr>p_tasks = [\<lparr>st_stepNo = Some 1, st_status = Some ''Done'', st_who = Some userA\<rparr>,
                  \<lparr>st_stepNo = Some 2, st_status = Some ''Pending'', st_who = Some userA\<rparr>]\<rparr>]) = 0
   \<and> count_where (\<lambda>p. \<not> list_ex step_assigned (p_tasks p))
     [\<lparr>p_tasks = [\<lparr>st_stepNo = Some 1, st_status = Some ''Done'', st_who = Some userA\<rparr>,
                  \<lparr>st_stepNo = Some 2, st_status = Some ''Pending'', st_who = Some userA\<rparr>]\<rparr>] = 0"
  by code_simp

text \<open>
  C1, amended. For tasks, checklists and help tickets the aggregate's \<open>total\<close> is the sum
  of the \<open>byPerson[].total\<close> values plus the number of records with no resolvable assignee
  (for a help ticket: neither \<open>assignedTo\<close> nor \<open>raisedBy\<close> resolves); for tasks this needs
  that no task's status is the word \<open>total\<close>, which the per-person object would count
  into its \<open>total\<close> property. For workflows \<open>total\<close> is the number of fetched projects,
  and the sum of the \<open>byPerson[].total\<close> values is the number of steps, over all fetched
  projects, whose \<open>who\<close> resolves.
\<close>

theorem total_is_person_totals_plus_unassigned:
  "(list_all (\<lambda>t. t_status t \<noteq> Some ''total'') tasks \<longrightarrow>
      ts_total (taskStats tasks)
      = sum_list (map tp_total (task_convertPersonStats (ts_byPerson (taskStats tasks))))
        + count_where (\<lambda>t. \<not> task_assigned t) tasks)
   \<and> cl_total (checklistStats checklists)
      = sum_list (map cp_total (convertPersonStats (cl_byPerson (checklistStats checklists))))
        + count_where (\<lambda>c. \<not> checklist_assigned c) checklists
   \<and> ht_total (helpTicketStats helpTickets)
      = sum_list (map hp_total (convertPersonStats (ht_byPerson (helpTicketStats helpTickets))))
        + count_where (\<lambda>t. \<not> ticket_assigned t) helpTickets
   \<and> fms_total (fmsStats projects) = length projects
   \<and> sum_list (map fp_total (convertPersonStats (fms_byPerson (fmsStats projects))))
      = count_where step_assigned (all_steps projects)"
proof (intro conjI impI)
  assume "list_all (\<lambda>t. t_status t \<noteq> Some ''total'') tasks"
  then have "\<forall>t\<in>set tasks. t_status t \<noteq> Some ''total''"
    by (simp add: list_all_iff)
  then show "ts_total (taskStats tasks)
      = sum_list (map tp_total (task_convertPersonStats (ts_byPerson (taskStats tasks))))
        + count_where (\<lambda>t. \<not> task_assigned t) tasks"
    by (rule tasks_total_by_person)
next
  show "cl_total (checklistStats checklists)
      = sum_list (map cp_total (convertPersonStats (cl_byPerson (checklistStats checklists))))
        + count_where (\<lambda>c. \<not> checklist_assigned c) checklists"
    by (rule checklists_total_by_person)
next
  show "ht_total (helpTicketStats helpTickets)
      = sum_list (map hp_total (convertPersonStats (ht_byPerson (helpTicketStats helpTickets))))
        + count_where (\<lambda>t. \<not> ticket_assigned t) helpTickets"
    by (rule tickets_total_by_person)
next
  show "fms_total (fmsStats projects) = length projects"
    by (simp add: fmsStats_def fms_fold_total fms_init_def)
next
  show "sum_list (map fp_total (convertPersonStats (fms_byPerson (fmsStats projects))))
      = count_where step_assigned (all_steps projects)"
    by (rule fms_person_sum_counts_steps)
qed

theorem total_is_person_totals_plus_unassigned_witness:
  "list_all (\<lambda>t. t_status t \<noteq> Some ''total'')
     [\<lparr>t_status = Some ''completed'', t_taskType = Some ''one-time'', t_assignedTo = Some userA\<rparr>,
      \<lparr>t_status = Some ''pending'', t_taskType = Some ''daily'', t_assignedTo = None\<rparr>]
   \<and> ts_total (taskStats
     [\<lparr>t_status = Some ''completed'', t_taskType = Some ''one-time'', t_assignedTo = Some userA\<rparr>,
      \<lparr>t_status = Some ''pending'', t_taskType = Some ''daily'', t_assignedTo = None\<rparr>])
     = sum_list (map tp_total (task_convertPersonStats (ts_byPerson (taskStats
     [\<lparr>t_status = Some ''completed'', t_taskType = Some ''one-time'', t_assignedTo = Some userA\<rparr>,
      \<lparr>t_status = Some ''pending'', t_taskType = Some ''daily'', t_assignedTo = None\<rparr>]))))
       + 1"
proof -
  let ?ts = "[\<lparr>t_status = Some ''completed'', t_taskType = Some ''one-time'',
                t_assignedTo = Some userA\<rparr>,
              \<lparr>t_status = Some ''pending'', t_taskType = Some ''daily'', t_assignedTo = None\<rparr>]"
  have h: "list_all (\<lambda>t. t_status t \<noteq> Some ''total'') ?ts"
    by simp
  have c: "count_where (\<lambda>t. \<not> task_assigned t) ?ts = 1"
    by (simp add: count_where_def task_assigned_def ref_id_def)
  from total_is_person_totals_plus_unassigned [of ?ts "[]" "[]" "[]"] h c
  show ?thesis by simp
qed

section \<open>C2: the total and the status histogram\<close>




section \<open>C3: completed, in progress, or neither\<close>




section \<open>C4: the period is the calendar month\<close>




section \<open>C5: a person's total and that person's status buckets\<close>




section \<open>C6: help-ticket status matching ignores case\<close>



section \<open>C7: the default status and the person of a help ticket\<close>



section \<open>C8: which requests the validation turns away\<close>




section \<open>C9: a project without steps\<close>

text \<open>
  C9. A workflow instance with zero steps is counted in \<open>fms.completed\<close>: the all-Done
  check holds vacuously on the empty step list, so the loop body adds one to \<open>completed\<close>
  and leaves \<open>inProgress\<close> alone, whatever was counted before.
\<close>

theorem zero_step_instance_completed:
  assumes "p_tasks p = []"
  shows "allTasksDone p
       \<and> fms_completed (fms_project_step s p) = fms_completed s + 1
       \<and> fms_inProgress (fms_project_step s p) = fms_inProgress s"
  using assms
  by (simp add: fms_project_step_completed fms_project_step_inProgress allTasksDone_def)

theorem zero_step_instance_completed_witness:
  "p_tasks \<lparr>p_tasks = []\<rparr> = []
   \<and> fms_completed (fmsStats [\<lparr>p_tasks = []\<rparr>]) = 1
   \<and> fms_inProgress (fmsStats [\<lparr>p_tasks = []\<rparr>]) = 0"
  using zero_step_instance_completed [of "\<lparr>p_tasks = []\<rparr>" "fms_init [\<lparr>p_tasks = []\<rparr>]"]
  by (simp add: fmsStats_def fms_init_def)

section \<open>C10: a failed fetch with and without a cached document\<close>




end
